theory Spec2Isabelle
  imports Complex_Main
begin

section \<open>The engine-sound emulator of App.js\<close>

text \<open>
  The component \<open>App\<close> keeps six pieces of React state (\<open>isRunning\<close>, \<open>frequency\<close>,
  \<open>throttle\<close>, \<open>data\<close>, \<open>tick\<close>, \<open>engineType\<close>) and three refs to Web Audio objects.
  Its event handlers and its effect are embedded as functions on a record of that state.

  JavaScript numbers are modelled by the reals where the source computes with fractions
  (\<open>throttle\<close>, the frequencies, the gains), by \<open>int\<close> where it stores the result of
  \<open>Math.round\<close>, and by \<open>nat\<close> for the counter \<open>tick\<close>, which starts at 0 and is only
  ever incremented. Rounding errors of IEEE doubles, and the limit \<open>2 ^ 53\<close> of the
  counter, are therefore outside the model. \<open>Math.round x\<close> is \<open>\<lfloor>x + 1/2\<rfloor>\<close>, which is
  exactly the constant \<^const>\<open>round\<close> of HOL.
\<close>

subsection \<open>Presets\<close>

datatype waveform = Sawtooth | Square | Triangle

record preset =
  baseFreq :: real
  maxFreq :: real
  wave :: waveform
  gain :: real

text \<open>
  The object literal \<open>enginePresets\<close>. A property read with a name that the literal does
  not define gives \<open>undefined\<close>, here \<open>None\<close> (names inherited from \<open>Object.prototype\<close>,
  such as \<open>toString\<close>, are not modelled).
\<close>

definition enginePresets :: "string \<rightharpoonup> preset" where
  "enginePresets =
     [''porsche'' \<mapsto> \<lparr>baseFreq = 40, maxFreq = 2000, wave = Sawtooth, gain = 5 / 100\<rparr>,
      ''ferrari'' \<mapsto> \<lparr>baseFreq = 80, maxFreq = 4000, wave = Square, gain = 5 / 100\<rparr>,
      ''mustang'' \<mapsto> \<lparr>baseFreq = 50, maxFreq = 2500, wave = Triangle, gain = 7 / 100\<rparr>]"

subsection \<open>State\<close>

record sample =
  index :: nat
  rpm :: int
  speed :: int

text \<open>
  The oscillator and gain nodes, as far as the source writes to them: the oscillator's
  \<open>type\<close>, the value given to \<open>frequency.setValueAtTime\<close>, the last
  \<open>frequency.setTargetAtTime\<close> (target and time constant), and whether \<open>connect\<close> and
  \<open>start\<close> were called; the gain node's \<open>gain.setValueAtTime\<close> value and its
  \<open>connect\<close>. The time argument \<open>audioCtxRef.current.currentTime\<close> of these calls is
  left out.
\<close>

record oscillator =
  osc_type :: waveform
  osc_frequency :: real
  osc_target :: "(real \<times> real) option"
  osc_connected :: bool
  osc_started :: bool

record gain_node =
  gain_value :: real
  gain_connected :: bool

text \<open>
  \<open>audioCtxRef\<close> is \<open>True\<close> once \<open>audioCtxRef.current\<close> holds a context; the other two
  refs are \<open>None\<close> while their \<open>current\<close> is \<open>null\<close>.
\<close>

record app =
  audioCtxRef :: bool
  oscillatorRef :: "oscillator option"
  gainRef :: "gain_node option"
  isRunning :: bool
  frequency :: int
  throttle :: real
  data :: "sample list"
  tick :: nat
  engineType :: string

text \<open>The state of the first render: the arguments of \<open>useRef\<close> and \<open>useState\<close>.\<close>

definition initial :: app where
  "initial =
     \<lparr>audioCtxRef = False, oscillatorRef = None, gainRef = None, isRunning = False,
      frequency = 40, throttle = 0, data = [], tick = 0, engineType = ''porsche''\<rparr>"

text \<open>
  Reading a property of \<open>undefined\<close> or \<open>null\<close> throws a \<open>TypeError\<close>; nothing in the
  source catches it. A function that can throw returns \<open>Inl TypeError\<close>, and the state
  left behind by the statements before the throw is not modelled.
\<close>

datatype error = TypeError

subsection \<open>The effect on \<open>[throttle, isRunning, engineType]\<close>\<close>

text \<open>\<open>prev.slice(-n)\<close>: the last \<open>n\<close> elements, or all of them when there are fewer.\<close>

definition slice_last :: "nat \<Rightarrow> 'a list \<Rightarrow> 'a list" where
  "slice_last n xs = drop (length xs - n) xs"

text \<open>The constant \<open>newFreq\<close> of the effect.\<close>

definition newFreq :: "preset \<Rightarrow> real \<Rightarrow> real" where
  "newFreq p t = baseFreq p + (maxFreq p - baseFreq p) * t"

text \<open>
  The body of the first \<open>useEffect\<close>, run on the state of the render it belongs to. The
  three state setters of the body are applied at once; the render they cause does not
  change a dependency, so the effect does not run again.
\<close>

definition recompute :: "app \<Rightarrow> error + app" where
  "recompute s =
     (if isRunning s \<and> oscillatorRef s \<noteq> None \<and> gainRef s \<noteq> None then
        (case enginePresets (engineType s) of
           None \<Rightarrow> Inl TypeError
         | Some p \<Rightarrow>
             if \<not> audioCtxRef s then Inl TypeError
             else
               let f = newFreq p (throttle s);
                   speed = round (f / 100)
               in Inr (s\<lparr>oscillatorRef :=
                            map_option (\<lambda>osc. osc\<lparr>osc_target := Some (f, 5 / 100)\<rparr>)
                              (oscillatorRef s),
                          frequency := round f,
                          data := slice_last 19 (data s) @
                                    [\<lparr>index = tick s, rpm = round f, speed = speed\<rparr>],
                          tick := tick s + 1\<rparr>))
      else Inr s)"

subsection \<open>Event handlers\<close>

definition startAudio :: "app \<Rightarrow> error + app" where
  "startAudio s =
     (if \<not> isRunning s then
        (case enginePresets (engineType s) of
           None \<Rightarrow> Inl TypeError
         | Some p \<Rightarrow>
             Inr (s\<lparr>audioCtxRef := True,
                    oscillatorRef :=
                      Some \<lparr>osc_type = wave p, osc_frequency = baseFreq p, osc_target = None,
                            osc_connected = True, osc_started = True\<rparr>,
                    gainRef := Some \<lparr>gain_value = gain p, gain_connected = True\<rparr>,
                    isRunning := True\<rparr>))
      else Inr s)"

text \<open>\<open>Math.min(1, Math.max(0, x))\<close>.\<close>

definition clamp01 :: "real \<Rightarrow> real" where
  "clamp01 x = min 1 (max 0 x)"

text \<open>\<open>handleScroll\<close>, as a function of the event's \<open>deltaY\<close>.\<close>

definition handleScroll :: "real \<Rightarrow> app \<Rightarrow> app" where
  "handleScroll deltaY s =
     s\<lparr>throttle := clamp01 (throttle s + (if deltaY < 0 then 2 / 100 else - (2 / 100)))\<rparr>"

text \<open>
  The slider's \<open>onChange\<close>, as a function of \<open>parseFloat(e.target.value)\<close> (a range input
  always holds a number, so the parse is taken to succeed), and the radio buttons'
  \<open>onChange\<close>, as a function of \<open>e.target.value\<close>.
\<close>

definition sliderChange :: "real \<Rightarrow> app \<Rightarrow> app" where
  "sliderChange v s = s\<lparr>throttle := v\<rparr>"

definition setEngineType :: "string \<Rightarrow> app \<Rightarrow> app" where
  "setEngineType name s = s\<lparr>engineType := name\<rparr>"

subsection \<open>Dispatching an event\<close>

datatype event = SelectEngine string | Start | Wheel real | Slider real

fun handle :: "event \<Rightarrow> app \<Rightarrow> error + app" where
  "handle (SelectEngine name) s = Inr (setEngineType name s)"
| "handle Start s = startAudio s"
| "handle (Wheel deltaY) s = Inr (handleScroll deltaY s)"
| "handle (Slider v) s = Inr (sliderChange v s)"

text \<open>The dependency array of the effect.\<close>

definition deps :: "app \<Rightarrow> real \<times> bool \<times> string" where
  "deps s = (throttle s, isRunning s, engineType s)"

text \<open>
  One event, handled to quiescence: the handler runs, React renders, and the effect runs
  if a dependency differs from the previous render.
\<close>

definition dispatch :: "event \<Rightarrow> app \<Rightarrow> error + app" where
  "dispatch ev s =
     (case handle ev s of
        Inl e \<Rightarrow> Inl e
      | Inr s' \<Rightarrow> if deps s' \<noteq> deps s then recompute s' else Inr s')"

fun run :: "event list \<Rightarrow> app \<Rightarrow> error + app" where
  "run [] s = Inr s"
| "run (ev # evs) s = (case dispatch ev s of Inl e \<Rightarrow> Inl e | Inr s' \<Rightarrow> run evs s')"

text \<open>
  Whether an event makes the body of the effect run (the effect fires and its guard
  holds), and how many times that happens along a list of events.
\<close>

definition recomputes :: "event \<Rightarrow> app \<Rightarrow> bool" where
  "recomputes ev s =
     (case handle ev s of
        Inl e \<Rightarrow> False
      | Inr s' \<Rightarrow> deps s' \<noteq> deps s \<and> isRunning s' \<and> oscillatorRef s' \<noteq> None \<and> gainRef s' \<noteq> None)"

fun recomputations :: "event list \<Rightarrow> app \<Rightarrow> nat" where
  "recomputations [] s = 0"
| "recomputations (ev # evs) s =
     (case dispatch ev s of
        Inl e \<Rightarrow> 0
      | Inr s' \<Rightarrow> (if recomputes ev s then 1 else 0) + recomputations evs s')"

subsection \<open>Observers and invariants\<close>

text \<open>
  The samples that the effect appends along a list of events, in order and without the
  bound: the full log of which \<open>data\<close> keeps the end.
\<close>

fun samples :: "event list \<Rightarrow> app \<Rightarrow> sample list" where
  "samples [] s = []"
| "samples (ev # evs) s =
     (case dispatch ev s of
        Inl e \<Rightarrow> []
      | Inr s' \<Rightarrow> (if recomputes ev s then [last (data s')] else []) @ samples evs s')"



text \<open>
  Invariants of the states the component reaches: the throttle lies in the unit
  interval, the selection names a preset, and a running component has its audio objects.
\<close>

definition throttle_ok :: "app \<Rightarrow> bool" where
  "throttle_ok s = (0 \<le> throttle s \<and> throttle s \<le> 1)"

definition preset_ok :: "app \<Rightarrow> bool" where
  "preset_ok s = (enginePresets (engineType s) \<noteq> None)"

definition refs_ok :: "app \<Rightarrow> bool" where
  "refs_ok s = (isRunning s \<longrightarrow> audioCtxRef s \<and> oscillatorRef s \<noteq> None \<and> gainRef s \<noteq> None)"

text \<open>The guard of the effect, and the object literal it appends to \<open>data\<close>.\<close>

definition guard :: "app \<Rightarrow> bool" where
  "guard s = (isRunning s \<and> oscillatorRef s \<noteq> None \<and> gainRef s \<noteq> None)"

definition appended :: "preset \<Rightarrow> app \<Rightarrow> sample" where
  "appended p s =
     \<lparr>index = tick s, rpm = round (newFreq p (throttle s)),
      speed = round (newFreq p (throttle s) / 100)\<rparr>"

subsection \<open>Concrete states and event lists\<close>

text \<open>
  The state after pressing Start in the first render, and a session that presses Start
  and then moves the slider to the top and back twelve times.
\<close>

definition started :: app where
  "started =
     \<lparr>audioCtxRef = True,
      oscillatorRef =
        Some \<lparr>osc_type = Sawtooth, osc_frequency = 40, osc_target = Some (40, 5 / 100),
              osc_connected = True, osc_started = True\<rparr>,
      gainRef = Some \<lparr>gain_value = 5 / 100, gain_connected = True\<rparr>,
      isRunning = True, frequency = 40, throttle = 0,
      data = [\<lparr>index = 0, rpm = 40, speed = 0\<rparr>], tick = 1, engineType = ''porsche''\<rparr>"

definition pedal_pumping :: "event list" where
  "pedal_pumping = Start # concat (replicate 12 [Slider 1, Slider 0])"

text \<open>A running state with the Ferrari preset at half throttle.\<close>

definition ferrari_half :: app where
  "ferrari_half = started\<lparr>throttle := 1 / 2, engineType := ''ferrari''\<rparr>"


definition porsche_full :: app where
  "porsche_full = started\<lparr>throttle := 1\<rparr>"

section \<open>Basic facts\<close>

lemma preset_order: "enginePresets n = Some p \<Longrightarrow> 0 < baseFreq p \<and> baseFreq p < maxFreq p"
  by (auto simp: enginePresets_def split: if_splits)

lemma recompute_fires:
  assumes "isRunning s" "audioCtxRef s" "oscillatorRef s = Some osc" "gainRef s = Some g"
    and "enginePresets (engineType s) = Some p"
  shows "recompute s =
           Inr (s\<lparr>oscillatorRef := Some (osc\<lparr>osc_target := Some (newFreq p (throttle s), 5 / 100)\<rparr>),
                  frequency := round (newFreq p (throttle s)),
                  data := slice_last 19 (data s) @ [appended p s],
                  tick := tick s + 1\<rparr>)"
  using assms by (simp add: recompute_def Let_def appended_def)

lemma recompute_skips: "\<not> guard s \<Longrightarrow> recompute s = Inr s"
  by (auto simp: recompute_def guard_def)

lemma recompute_cases:
  assumes "recompute s = Inr s'"
  obtains (skip) "\<not> guard s" "s' = s"
  | (fire) p osc g where "isRunning s" "audioCtxRef s" "oscillatorRef s = Some osc"
      "gainRef s = Some g" "enginePresets (engineType s) = Some p"
      "s' = s\<lparr>oscillatorRef := Some (osc\<lparr>osc_target := Some (newFreq p (throttle s), 5 / 100)\<rparr>),
                  frequency := round (newFreq p (throttle s)),
                  data := slice_last 19 (data s) @ [appended p s],
                  tick := tick s + 1\<rparr>"
proof (cases "guard s")
  case False
  with assms have "s' = s" by (simp add: recompute_skips)
  with False show ?thesis by (rule skip)
next
  case True
  then obtain osc g where r: "isRunning s" and o: "oscillatorRef s = Some osc"
    and g: "gainRef s = Some g"
    by (auto simp: guard_def)
  show ?thesis
  proof (cases "enginePresets (engineType s)")
    case None
    with r o g assms show ?thesis by (simp add: recompute_def)
  next
    case (Some p)
    show ?thesis
    proof (cases "audioCtxRef s")
      case False
      with r o g Some assms show ?thesis by (simp add: recompute_def)
    next
      case c: True
      from assms recompute_fires [OF r c o g Some] show ?thesis
        using fire [OF r c o g Some] by simp
    qed
  qed
qed

lemma slice_last_snoc: "slice_last 19 (slice_last 20 h) @ [x] = slice_last 20 (h @ [x])"
proof -
  have "length h - (length h - 20 + 19) + (length h - 20) = length h - 19"
    by arith
  then show ?thesis
    by (simp add: slice_last_def)
qed

lemma length_slice_last: "length (slice_last n xs) = min n (length xs)"
  by (simp add: slice_last_def)

lemma handle_frame:
  assumes "handle ev s = Inr s1"
  shows "data s1 = data s" "tick s1 = tick s" "frequency s1 = frequency s"
  using assms
  by (cases ev; simp add: setEngineType_def handleScroll_def sliderChange_def startAudio_def
        split: if_splits option.splits; fastforce)+

lemma recomputes_iff: "handle ev s = Inr s1 \<Longrightarrow> recomputes ev s \<longleftrightarrow> deps s1 \<noteq> deps s \<and> guard s1"
  by (simp add: recomputes_def guard_def)

lemma dispatch_quiet:
  assumes "dispatch ev s = Inr s'" "\<not> recomputes ev s"
  shows "handle ev s = Inr s'"
proof (cases "handle ev s")
  case (Inl e)
  with assms show ?thesis by (simp add: dispatch_def)
next
  case (Inr s1)
  with assms(2) have "deps s1 = deps s \<or> \<not> guard s1"
    by (simp add: recomputes_iff)
  with Inr assms(1) show ?thesis
    by (auto simp: dispatch_def recompute_skips split: if_splits)
qed

lemma dispatch_fires:
  assumes "dispatch ev s = Inr s'" "recomputes ev s"
  obtains s1 p osc g where "handle ev s = Inr s1" "isRunning s1" "audioCtxRef s1"
    "oscillatorRef s1 = Some osc" "gainRef s1 = Some g" "enginePresets (engineType s1) = Some p"
    "s' = s1\<lparr>oscillatorRef := Some (osc\<lparr>osc_target := Some (newFreq p (throttle s1), 5 / 100)\<rparr>),
             frequency := round (newFreq p (throttle s1)),
             data := slice_last 19 (data s1) @ [appended p s1],
             tick := tick s1 + 1\<rparr>"
proof (cases "handle ev s")
  case (Inl e)
  with assms show ?thesis by (simp add: dispatch_def)
next
  case (Inr s1)
  with assms(2) have d: "deps s1 \<noteq> deps s" and g: "guard s1"
    by (simp_all add: recomputes_iff)
  with Inr assms(1) have "recompute s1 = Inr s'"
    by (simp add: dispatch_def)
  then show ?thesis
  proof (cases rule: recompute_cases)
    case skip
    with g show ?thesis by simp
  next
    case (fire p osc g)
    with Inr show ?thesis using that by blast
  qed
qed

lemma dispatch_step:
  assumes "dispatch ev s = Inr s'"
  shows "recomputes ev s \<Longrightarrow>
           data s' = slice_last 19 (data s) @ [last (data s')] \<and> index (last (data s')) = tick s \<and>
           rpm (last (data s')) = frequency s' \<and> tick s' = tick s + 1"
    and "\<not> recomputes ev s \<Longrightarrow> data s' = data s \<and> tick s' = tick s \<and> frequency s' = frequency s"
proof -
  assume r: "recomputes ev s"
  from assms r show "data s' = slice_last 19 (data s) @ [last (data s')] \<and> index (last (data s')) = tick s \<and>
           rpm (last (data s')) = frequency s' \<and> tick s' = tick s + 1"
  proof (cases rule: dispatch_fires)
    case (1 s1 p osc g)
    from handle_frame [OF 1(1)] 1(7) show ?thesis
      by (simp add: appended_def)
  qed
next
  assume "\<not> recomputes ev s"
  with assms have "handle ev s = Inr s'" by (rule dispatch_quiet)
  from handle_frame [OF this]
  show "data s' = data s \<and> tick s' = tick s \<and> frequency s' = frequency s" by simp
qed

lemma run_log:
  assumes "run evs s = Inr s'" "data s = slice_last 20 h"
  shows "data s' = slice_last 20 (h @ samples evs s) \<and>
         tick s' = tick s + recomputations evs s \<and>
         length (samples evs s) = recomputations evs s \<and>
         map index (samples evs s) = [tick s..<tick s + recomputations evs s]"
  using assms
proof (induction evs arbitrary: s h)
  case Nil
  then show ?case by simp
next
  case (Cons ev evs)
  from Cons.prems(1) obtain s1 where d: "dispatch ev s = Inr s1" and r: "run evs s1 = Inr s'"
    by (auto split: sum.splits)
  show ?case
  proof (cases "recomputes ev s")
    case True
    from dispatch_step(1) [OF d True] Cons.prems(2)
    have h1: "data s1 = slice_last 20 (h @ [last (data s1)])"
      and i1: "index (last (data s1)) = tick s" and t1: "tick s1 = tick s + 1"
      by (simp_all add: slice_last_snoc)
    from Cons.IH [OF r h1] d True i1 t1 show ?thesis
      by (simp add: upt_conv_Cons)
  next
    case False
    from dispatch_step(2) [OF d False] Cons.prems(2)
    have h1: "data s1 = slice_last 20 h" and t1: "tick s1 = tick s"
      by simp_all
    from Cons.IH [OF r h1] d False t1 show ?thesis
      by simp
  qed
qed

lemma run_rpm:
  assumes "run evs s = Inr s'" "data s \<noteq> [] \<longrightarrow> rpm (last (data s)) = frequency s"
  shows "data s' \<noteq> [] \<longrightarrow> rpm (last (data s')) = frequency s'"
  using assms
proof (induction evs arbitrary: s)
  case Nil
  then show ?case by simp
next
  case (Cons ev evs)
  from Cons.prems(1) obtain s1 where d: "dispatch ev s = Inr s1" and r: "run evs s1 = Inr s'"
    by (auto split: sum.splits)
  have "data s1 \<noteq> [] \<longrightarrow> rpm (last (data s1)) = frequency s1"
  proof (cases "recomputes ev s")
    case True
    from dispatch_step(1) [OF d True] show ?thesis by simp
  next
    case False
    from dispatch_step(2) [OF d False] Cons.prems(2) show ?thesis by simp
  qed
  with r show ?case by (rule Cons.IH)
qed

lemma start_initial: "dispatch Start initial = Inr started"
  by (simp add: dispatch_def startAudio_def initial_def started_def enginePresets_def deps_def
      recompute_def newFreq_def slice_last_def Let_def round_def)

lemma index_slice_last:
  "map index xs = [0..<n] \<Longrightarrow> map index (slice_last 20 xs) = [n - 20..<n]"
proof -
  assume a: "map index xs = [0..<n]"
  then have "length xs = n"
    by (metis length_map length_upt minus_nat.diff_0)
  with a show ?thesis
    by (simp add: slice_last_def drop_map [symmetric])
qed

lemma pedal_pumping_runs: "run pedal_pumping initial = Inr (projr (run pedal_pumping initial))"
proof -
  have "\<not> isl (run pedal_pumping initial)"
    by code_simp
  then show ?thesis by simp
qed

lemma pedal_pumping_count: "recomputations pedal_pumping initial = 25"
  by code_simp

lemma start_fires: "recomputes Start initial"
  by (simp add: recomputes_def startAudio_def initial_def enginePresets_def deps_def)

lemma wheel_down_started: "dispatch (Wheel 1) started = Inr started \<and> \<not> recomputes (Wheel 1) started"
  by (simp add: dispatch_def recomputes_def handleScroll_def clamp01_def started_def deps_def)

lemma recompute_started:
  "recompute started = Inr (projr (recompute started)) \<and> guard started"
  by (simp add: recompute_def started_def enginePresets_def guard_def Let_def)

lemma pedal_pumping_data: "data (projr (run pedal_pumping initial)) \<noteq> []"
  by code_simp

lemma ferrari_preset:
  "enginePresets ''ferrari'' = Some \<lparr>baseFreq = 80, maxFreq = 4000, wave = Square, gain = 5 / 100\<rparr>"
  by (simp add: enginePresets_def)

lemma porsche_preset:
  "enginePresets ''porsche'' = Some \<lparr>baseFreq = 40, maxFreq = 2000, wave = Sawtooth, gain = 5 / 100\<rparr>"
  by (simp add: enginePresets_def)

lemma mustang_preset:
  "enginePresets ''mustang'' = Some \<lparr>baseFreq = 50, maxFreq = 2500, wave = Triangle, gain = 7 / 100\<rparr>"
  by (simp add: enginePresets_def)

lemma recompute_frame:
  assumes "recompute s = Inr s'"
  shows "throttle s' = throttle s \<and> isRunning s' = isRunning s \<and> engineType s' = engineType s \<and>
         audioCtxRef s' = audioCtxRef s \<and> gainRef s' = gainRef s \<and>
         map_option osc_type (oscillatorRef s') = map_option osc_type (oscillatorRef s) \<and>
         map_option osc_frequency (oscillatorRef s') = map_option osc_frequency (oscillatorRef s) \<and>
         (oscillatorRef s' = None \<longleftrightarrow> oscillatorRef s = None)"
  using assms
proof (cases rule: recompute_cases)
  case skip
  then show ?thesis by simp
next
  case (fire p osc g)
  then show ?thesis by simp
qed

lemma recompute_total:
  assumes "preset_ok s" "refs_ok s"
  shows "\<exists>s'. recompute s = Inr s'"
proof (cases "guard s")
  case False
  then show ?thesis by (simp add: recompute_skips)
next
  case True
  with assms(2) obtain osc g where "isRunning s" "audioCtxRef s" "oscillatorRef s = Some osc"
    "gainRef s = Some g"
    by (auto simp: guard_def refs_ok_def)
  moreover from assms(1) obtain p where "enginePresets (engineType s) = Some p"
    by (auto simp: preset_ok_def)
  ultimately show ?thesis
    using recompute_fires by blast
qed


lemma startAudio_result:
  assumes "\<not> isRunning s" "enginePresets (engineType s) = Some p"
  shows "startAudio s =
           Inr (s\<lparr>audioCtxRef := True,
                  oscillatorRef :=
                    Some \<lparr>osc_type = wave p, osc_frequency = baseFreq p, osc_target = None,
                          osc_connected = True, osc_started = True\<rparr>,
                  gainRef := Some \<lparr>gain_value = gain p, gain_connected = True\<rparr>,
                  isRunning := True\<rparr>)"
  using assms by (simp add: startAudio_def)

lemma startAudio_running: "isRunning s \<Longrightarrow> startAudio s = Inr s"
  by (simp add: startAudio_def)

lemma startAudio_cases:
  assumes "startAudio s = Inr s1"
  obtains (already) "isRunning s" "s1 = s"
  | (fresh) p where "\<not> isRunning s" "enginePresets (engineType s) = Some p"
      "s1 = s\<lparr>audioCtxRef := True,
                  oscillatorRef :=
                    Some \<lparr>osc_type = wave p, osc_frequency = baseFreq p, osc_target = None,
                          osc_connected = True, osc_started = True\<rparr>,
                  gainRef := Some \<lparr>gain_value = gain p, gain_connected = True\<rparr>,
                  isRunning := True\<rparr>"
proof (cases "isRunning s")
  case True
  with assms have "s1 = s" by (simp add: startAudio_running)
  with True show ?thesis by (rule already)
next
  case False
  show ?thesis
  proof (cases "enginePresets (engineType s)")
    case None
    with False assms show ?thesis by (simp add: startAudio_def)
  next
    case (Some p)
    from assms startAudio_result [OF False Some] show ?thesis
      using fresh [OF False Some] by simp
  qed
qed









lemma dispatch_Start_running:
  assumes "dispatch Start s = Inr s'"
  shows "isRunning s'"
proof (cases "startAudio s")
  case (Inl e)
  with assms show ?thesis by (simp add: dispatch_def)
next
  case (Inr s1)
  then have r: "isRunning s1"
    by (cases rule: startAudio_cases) simp_all
  show ?thesis
  proof (cases "deps s1 = deps s")
    case True
    with Inr assms r show ?thesis by (simp add: dispatch_def)
  next
    case False
    with Inr assms have "recompute s1 = Inr s'" by (simp add: dispatch_def)
    from recompute_frame [OF this] r show ?thesis by simp
  qed
qed

lemma dispatch_Start_noop: "isRunning s \<Longrightarrow> dispatch Start s = Inr s"
  by (simp add: dispatch_def startAudio_running)

lemma dispatch_Start_total:
  assumes "preset_ok s"
  shows "\<exists>s'. dispatch Start s = Inr s'"
proof (cases "isRunning s")
  case True
  then show ?thesis by (simp add: dispatch_Start_noop)
next
  case False
  from assms obtain p where p: "enginePresets (engineType s) = Some p"
    by (auto simp: preset_ok_def)
  let ?s1 = "s\<lparr>audioCtxRef := True,
                  oscillatorRef :=
                    Some \<lparr>osc_type = wave p, osc_frequency = baseFreq p, osc_target = None,
                          osc_connected = True, osc_started = True\<rparr>,
                  gainRef := Some \<lparr>gain_value = gain p, gain_connected = True\<rparr>,
                  isRunning := True\<rparr>"
  have "preset_ok ?s1" "refs_ok ?s1"
    using p by (simp_all add: preset_ok_def refs_ok_def)
  from recompute_total [OF this] obtain s' where "recompute ?s1 = Inr s'"
    by blast
  with startAudio_result [OF False p] False show ?thesis
    by (simp add: dispatch_def deps_def)
qed

lemma started_facts: "isRunning started" "preset_ok started" "refs_ok started" "throttle_ok started"
  "guard started"
  by (simp_all add: started_def preset_ok_def refs_ok_def throttle_ok_def guard_def enginePresets_def)

lemma initial_facts: "\<not> isRunning initial" "preset_ok initial" "refs_ok initial"
  "throttle_ok initial"
  by (simp_all add: initial_def preset_ok_def refs_ok_def throttle_ok_def enginePresets_def)



lemma handle_running_audio:
  assumes "handle ev s = Inr s1" "isRunning s"
  shows "isRunning s1 \<and> oscillatorRef s1 = oscillatorRef s \<and> gainRef s1 = gainRef s"
  using assms
  by (cases ev) (simp_all add: setEngineType_def handleScroll_def sliderChange_def
      startAudio_running, auto)

lemma dispatch_running_audio:
  assumes "dispatch ev s = Inr s'" "isRunning s"
  shows "isRunning s' \<and>
         map_option osc_type (oscillatorRef s') = map_option osc_type (oscillatorRef s) \<and>
         gainRef s' = gainRef s"
proof (cases "handle ev s")
  case (Inl e)
  with assms show ?thesis by (simp add: dispatch_def)
next
  case (Inr s1)
  note h = handle_running_audio [OF Inr assms(2)]
  show ?thesis
  proof (cases "deps s1 = deps s")
    case True
    with Inr assms(1) h show ?thesis by (simp add: dispatch_def)
  next
    case False
    with Inr assms(1) have "recompute s1 = Inr s'" by (simp add: dispatch_def)
    from recompute_frame [OF this] h show ?thesis by simp
  qed
qed

lemma running_audio_fixed:
  assumes "run evs s = Inr s'" "isRunning s"
  shows "map_option osc_type (oscillatorRef s') = map_option osc_type (oscillatorRef s) \<and>
         gainRef s' = gainRef s"
  using assms
proof (induction evs arbitrary: s)
  case Nil
  then show ?case by simp
next
  case (Cons ev evs)
  from Cons.prems(1) obtain s1 where d: "dispatch ev s = Inr s1" and r: "run evs s1 = Inr s'"
    by (auto split: sum.splits)
  note s = dispatch_running_audio [OF d Cons.prems(2)]
  from s have "isRunning s1" by simp
  from Cons.IH [OF r this] s show ?case by simp
qed

lemma mustang_switch:
  "run [SelectEngine ''mustang''] ferrari_half =
     Inr (projr (run [SelectEngine ''mustang''] ferrari_half))"
proof -
  have "\<not> isl (run [SelectEngine ''mustang''] ferrari_half)"
    by code_simp
  then show ?thesis by simp
qed

lemma ferrari_half_facts: "isRunning ferrari_half" "audioCtxRef ferrari_half" "guard ferrari_half"
  "oscillatorRef ferrari_half =
     Some \<lparr>osc_type = Sawtooth, osc_frequency = 40, osc_target = Some (40, 5 / 100),
           osc_connected = True, osc_started = True\<rparr>"
  "gainRef ferrari_half = Some \<lparr>gain_value = 5 / 100, gain_connected = True\<rparr>"
  "enginePresets (engineType ferrari_half) =
     Some \<lparr>baseFreq = 80, maxFreq = 4000, wave = Square, gain = 5 / 100\<rparr>"
  "throttle ferrari_half = 1 / 2"
  by (simp_all add: ferrari_half_def started_def guard_def ferrari_preset)

lemma started_refs:
  "audioCtxRef started"
  "oscillatorRef started =
     Some \<lparr>osc_type = Sawtooth, osc_frequency = 40, osc_target = Some (40, 5 / 100),
           osc_connected = True, osc_started = True\<rparr>"
  "gainRef started = Some \<lparr>gain_value = 5 / 100, gain_connected = True\<rparr>"
  "engineType started = ''porsche''" "throttle started = 0"
  by (simp_all add: started_def)

lemma porsche_full_facts:
  "isRunning porsche_full" "audioCtxRef porsche_full"
  "oscillatorRef porsche_full =
     Some \<lparr>osc_type = Sawtooth, osc_frequency = 40, osc_target = Some (40, 5 / 100),
           osc_connected = True, osc_started = True\<rparr>"
  "gainRef porsche_full = Some \<lparr>gain_value = 5 / 100, gain_connected = True\<rparr>"
  "engineType porsche_full = ''porsche''" "throttle porsche_full = 1"
  by (simp_all add: porsche_full_def started_def)

lemma ferrari_half_engine: "engineType ferrari_half = ''ferrari''"
  by (simp add: ferrari_half_def)



lemma slider_started:
  "dispatch (Slider (1 / 2)) started = Inr (projr (dispatch (Slider (1 / 2)) started))"
proof -
  have "\<not> isl (dispatch (Slider (1 / 2)) started)"
    by code_simp
  then show ?thesis by simp
qed

lemma recompute_ferrari_half:
  "recompute ferrari_half = Inr (projr (recompute ferrari_half))"
  by (simp add: recompute_def ferrari_half_facts Let_def)

lemma slider_started_fires: "recomputes (Slider (1 / 2)) started"
  by (simp add: recomputes_def sliderChange_def started_def deps_def)

section \<open>The telemetry history\<close>

text \<open>
  Claim C3. In every state reached from the first render, \<open>data\<close> is the end of the log of
  all samples appended so far: its last 20 entries, or the whole log while that is shorter.
  So its length never exceeds 20, it is exactly 20 once 20 or more recomputations have
  happened, the indices it holds are the most recent ones, and after 25 recomputations
  they are 5 to 24.
\<close>

theorem telemetry_history_bounded:
  assumes "run evs initial = Inr s"
  shows "data s = slice_last 20 (samples evs initial) \<and>
         length (samples evs initial) = recomputations evs initial \<and>
         length (data s) \<le> 20 \<and>
         (20 \<le> recomputations evs initial \<longrightarrow> length (data s) = 20) \<and>
         map index (data s) = [recomputations evs initial - 20..<recomputations evs initial] \<and>
         (recomputations evs initial = 25 \<longrightarrow> map index (data s) = [5..<25])"
proof -
  have "data initial = slice_last 20 []"
    by (simp add: initial_def slice_last_def)
  from run_log [OF assms this]
  have d: "data s = slice_last 20 (samples evs initial)"
    and l: "length (samples evs initial) = recomputations evs initial"
    and i: "map index (samples evs initial) = [0..<recomputations evs initial]"
    by (simp_all add: initial_def)
  from d l have len: "length (data s) = min 20 (recomputations evs initial)"
    by (simp add: length_slice_last)
  from d i have idx: "map index (data s) = [recomputations evs initial - 20..<recomputations evs initial]"
    by (simp add: index_slice_last)
  from d l len idx show ?thesis by simp
qed

theorem telemetry_history_bounded_witness:
  "run pedal_pumping initial = Inr (projr (run pedal_pumping initial)) \<and>
   recomputations pedal_pumping initial = 25 \<and>
   length (data (projr (run pedal_pumping initial))) = 20 \<and>
   map index (data (projr (run pedal_pumping initial))) = [5..<25]"
proof -
  note e = pedal_pumping_runs and n = pedal_pumping_count
  note t = telemetry_history_bounded [OF e]
  from t have "20 \<le> recomputations pedal_pumping initial \<longrightarrow>
      length (data (projr (run pedal_pumping initial))) = 20"
    by blast
  with n have l: "length (data (projr (run pedal_pumping initial))) = 20"
    by simp
  from t n have m: "map index (data (projr (run pedal_pumping initial))) = [5..<25]"
    by blast
  from e n l m show ?thesis
    by blast
qed

text \<open>
  Claim C4. The counter \<open>tick\<close> starts at 0 and equals the number of recomputations so
  far, so the samples appended are numbered 0, 1, 2, ... in order. An event that makes the
  effect's body run appends a sample with the current \<open>tick\<close> and adds 1 to it, whatever
  the length of \<open>data\<close> was; any other event leaves both alone.
\<close>

theorem sample_index_counts:
  "tick initial = 0 \<and>
   (run evs initial = Inr s \<longrightarrow>
      tick s = recomputations evs initial \<and>
      map index (samples evs initial) = [0..<recomputations evs initial]) \<and>
   (dispatch ev s0 = Inr s1 \<and> recomputes ev s0 \<longrightarrow>
      index (last (data s1)) = tick s0 \<and> tick s1 = tick s0 + 1) \<and>
   (dispatch ev s0 = Inr s1 \<and> \<not> recomputes ev s0 \<longrightarrow> tick s1 = tick s0 \<and> data s1 = data s0)"
proof -
  have a: "tick initial = 0"
    by (simp add: initial_def)
  have h: "data initial = slice_last 20 []"
    by (simp add: initial_def slice_last_def)
  have b: "tick s = recomputations evs initial \<and>
      map index (samples evs initial) = [0..<recomputations evs initial]"
    if "run evs initial = Inr s"
    using run_log [OF that h] a by simp
  have c: "index (last (data s1)) = tick s0 \<and> tick s1 = tick s0 + 1"
    if "dispatch ev s0 = Inr s1" "recomputes ev s0"
    using dispatch_step(1) [OF that] by simp
  have d: "tick s1 = tick s0 \<and> data s1 = data s0"
    if "dispatch ev s0 = Inr s1" "\<not> recomputes ev s0"
    using dispatch_step(2) [OF that] by simp
  from a b c d show ?thesis by blast
qed

theorem sample_index_counts_witness:
  "run pedal_pumping initial = Inr (projr (run pedal_pumping initial)) \<and>
   tick (projr (run pedal_pumping initial)) = 25 \<and>
   map index (samples pedal_pumping initial) = [0..<25] \<and>
   dispatch Start initial = Inr started \<and> recomputes Start initial \<and>
   index (last (data started)) = tick initial \<and> tick started = tick initial + 1 \<and>
   dispatch (Wheel 1) started = Inr started \<and> \<not> recomputes (Wheel 1) started"
proof -
  note a = sample_index_counts [of pedal_pumping "projr (run pedal_pumping initial)" Start initial started]
  note b = sample_index_counts [of "[]" initial "Wheel 1" started started]
  from a pedal_pumping_runs pedal_pumping_count
  have 1: "tick (projr (run pedal_pumping initial)) = 25 \<and>
           map index (samples pedal_pumping initial) = [0..<25]"
    by simp
  from a start_initial start_fires
  have 2: "index (last (data started)) = tick initial \<and> tick started = tick initial + 1"
    by blast
  from 1 2 pedal_pumping_runs start_initial start_fires wheel_down_started b show ?thesis
    by blast
qed

text \<open>
  Claim C10. When the effect's body runs, it computes \<open>newFreq\<close> from the selected preset
  and the throttle, stores \<open>Math.round(newFreq)\<close> in \<open>frequency\<close>, and appends to the last 19
  entries of \<open>data\<close> one sample whose \<open>rpm\<close> is the same \<open>Math.round(newFreq)\<close>; so the
  newest sample's \<open>rpm\<close> equals \<open>frequency\<close>. The same holds for every event that makes the
  body run, an event that does not leaves \<open>frequency\<close> and \<open>data\<close> alone, and hence in every
  state reached from the first render with a non-empty history the newest sample's \<open>rpm\<close>
  is the displayed \<open>frequency\<close>.
\<close>

theorem rpm_matches_frequency:
  "(recompute s0 = Inr s1 \<and> guard s0 \<longrightarrow>
      (\<exists>p. enginePresets (engineType s0) = Some p \<and>
           frequency s1 = round (newFreq p (throttle s0)) \<and>
           data s1 = slice_last 19 (data s0) @
             [\<lparr>index = tick s0, rpm = round (newFreq p (throttle s0)),
               speed = round (newFreq p (throttle s0) / 100)\<rparr>]) \<and>
      data s1 \<noteq> [] \<and> rpm (last (data s1)) = frequency s1) \<and>
   (dispatch ev s2 = Inr s3 \<and> recomputes ev s2 \<longrightarrow>
      (\<exists>p. enginePresets (engineType s3) = Some p \<and>
           frequency s3 = round (newFreq p (throttle s3)) \<and>
           data s3 = slice_last 19 (data s2) @
             [\<lparr>index = tick s2, rpm = round (newFreq p (throttle s3)),
               speed = round (newFreq p (throttle s3) / 100)\<rparr>])) \<and>
   (dispatch ev s2 = Inr s3 \<and> \<not> recomputes ev s2 \<longrightarrow>
      frequency s3 = frequency s2 \<and> data s3 = data s2) \<and>
   (run evs initial = Inr s \<and> data s \<noteq> [] \<longrightarrow> rpm (last (data s)) = frequency s)"
proof -
  have a: "(\<exists>p. enginePresets (engineType s0) = Some p \<and>
           frequency s1 = round (newFreq p (throttle s0)) \<and>
           data s1 = slice_last 19 (data s0) @
             [\<lparr>index = tick s0, rpm = round (newFreq p (throttle s0)),
               speed = round (newFreq p (throttle s0) / 100)\<rparr>]) \<and>
      data s1 \<noteq> [] \<and> rpm (last (data s1)) = frequency s1"
    if r: "recompute s0 = Inr s1" and g: "guard s0"
    using r
  proof (cases rule: recompute_cases)
    case skip
    with g show ?thesis by simp
  next
    case (fire p osc g)
    then show ?thesis by (simp add: appended_def)
  qed
  have b: "\<exists>p. enginePresets (engineType s3) = Some p \<and>
           frequency s3 = round (newFreq p (throttle s3)) \<and>
           data s3 = slice_last 19 (data s2) @
             [\<lparr>index = tick s2, rpm = round (newFreq p (throttle s3)),
               speed = round (newFreq p (throttle s3) / 100)\<rparr>]"
    if d: "dispatch ev s2 = Inr s3" and f: "recomputes ev s2"
    using d f
  proof (cases rule: dispatch_fires)
    case (1 s1 p osc g)
    from handle_frame [OF 1(1)] 1(6,7) show ?thesis
      by (simp add: appended_def)
  qed
  have c: "frequency s3 = frequency s2 \<and> data s3 = data s2"
    if "dispatch ev s2 = Inr s3" "\<not> recomputes ev s2"
    using dispatch_step(2) [OF that] by simp
  have "data initial \<noteq> [] \<longrightarrow> rpm (last (data initial)) = frequency initial"
    by (simp add: initial_def)
  then have e: "rpm (last (data s)) = frequency s" if "run evs initial = Inr s" "data s \<noteq> []"
    using run_rpm that by blast
  from a b c e show ?thesis by blast
qed

theorem rpm_matches_frequency_witness:
  "recompute ferrari_half = Inr (projr (recompute ferrari_half)) \<and> guard ferrari_half \<and>
   frequency (projr (recompute ferrari_half)) = 2040 \<and>
   data (projr (recompute ferrari_half)) =
     [\<lparr>index = 0, rpm = 40, speed = 0\<rparr>, \<lparr>index = 1, rpm = 2040, speed = 20\<rparr>] \<and>
   dispatch (Slider (1 / 2)) started = Inr (projr (dispatch (Slider (1 / 2)) started)) \<and>
   recomputes (Slider (1 / 2)) started \<and>
   frequency (projr (dispatch (Slider (1 / 2)) started)) = 1020 \<and>
   rpm (last (data (projr (dispatch (Slider (1 / 2)) started)))) = 1020 \<and>
   dispatch (Wheel 1) started = Inr started \<and> \<not> recomputes (Wheel 1) started \<and>
   run pedal_pumping initial = Inr (projr (run pedal_pumping initial)) \<and>
   data (projr (run pedal_pumping initial)) \<noteq> [] \<and>
   rpm (last (data (projr (run pedal_pumping initial)))) =
     frequency (projr (run pedal_pumping initial))"
proof -
  let ?F = "\<lparr>baseFreq = 80, maxFreq = 4000, wave = Square, gain = 5 / 100\<rparr>"
  let ?P = "\<lparr>baseFreq = 40, maxFreq = 2000, wave = Sawtooth, gain = 5 / 100\<rparr>"
  let ?s3 = "projr (dispatch (Slider (1 / 2)) started)"
  note t = rpm_matches_frequency [of ferrari_half "projr (recompute ferrari_half)"
      "Slider (1 / 2)" started ?s3 pedal_pumping "projr (run pedal_pumping initial)"]
  note u = rpm_matches_frequency [of started started "Wheel 1" started started "[]" initial]
  from t recompute_ferrari_half ferrari_half_facts(3)
  have "\<exists>p. enginePresets (engineType ferrari_half) = Some p \<and>
           frequency (projr (recompute ferrari_half)) = round (newFreq p (throttle ferrari_half)) \<and>
           data (projr (recompute ferrari_half)) = slice_last 19 (data ferrari_half) @
             [\<lparr>index = tick ferrari_half, rpm = round (newFreq p (throttle ferrari_half)),
               speed = round (newFreq p (throttle ferrari_half) / 100)\<rparr>]"
    by blast
  then have 1: "frequency (projr (recompute ferrari_half)) = 2040 \<and>
      data (projr (recompute ferrari_half)) =
        [\<lparr>index = 0, rpm = 40, speed = 0\<rparr>, \<lparr>index = 1, rpm = 2040, speed = 20\<rparr>]"
    by (auto simp: ferrari_half_facts(6,7) newFreq_def round_def)
      (simp_all add: ferrari_half_def started_def slice_last_def)
  have k: "engineType ?s3 = ''porsche'' \<and> throttle ?s3 = 1 / 2"
    by code_simp
  from t slider_started slider_started_fires
  have "\<exists>p. enginePresets (engineType ?s3) = Some p \<and>
           frequency ?s3 = round (newFreq p (throttle ?s3)) \<and>
           data ?s3 = slice_last 19 (data started) @
             [\<lparr>index = tick started, rpm = round (newFreq p (throttle ?s3)),
               speed = round (newFreq p (throttle ?s3) / 100)\<rparr>]"
    by blast
  then have 2: "frequency ?s3 = 1020 \<and> rpm (last (data ?s3)) = 1020"
    by (auto simp: k porsche_preset newFreq_def round_def)
  from t pedal_pumping_runs pedal_pumping_data
  have 3: "rpm (last (data (projr (run pedal_pumping initial)))) =
     frequency (projr (run pedal_pumping initial))"
    by blast
  from 1 2 3 recompute_ferrari_half ferrari_half_facts(3) slider_started slider_started_fires
    wheel_down_started pedal_pumping_runs pedal_pumping_data u
  show ?thesis by blast
qed

section \<open>Throttle changes while idle\<close>

text \<open>
  Claim C7. While \<open>isRunning\<close> is false, a wheel or slider event changes the field
  \<open>throttle\<close> and nothing else: the audio refs, \<open>frequency\<close>, \<open>data\<close> and \<open>tick\<close> stay as
  they were.
\<close>

theorem idle_throttle_frame:
  assumes "\<not> isRunning s"
  shows "dispatch (Wheel deltaY) s =
           Inr (s\<lparr>throttle := clamp01 (throttle s + (if deltaY < 0 then 2 / 100 else - (2 / 100)))\<rparr>) \<and>
         dispatch (Slider v) s = Inr (s\<lparr>throttle := v\<rparr>)"
  using assms by (simp add: dispatch_def handleScroll_def sliderChange_def recompute_def)

theorem idle_throttle_frame_witness:
  "\<not> isRunning initial \<and>
   dispatch (Wheel (- 1)) initial = Inr (initial\<lparr>throttle := 2 / 100\<rparr>) \<and>
   dispatch (Slider (1 / 2)) initial = Inr (initial\<lparr>throttle := 1 / 2\<rparr>)"
proof -
  have h: "\<not> isRunning initial"
    by (simp add: initial_def)
  have c: "clamp01 (throttle initial + 2 / 100) = 2 / 100"
    by (simp add: clamp01_def initial_def)
  from idle_throttle_frame [OF h, of "- 1" "1 / 2"] h c show ?thesis
    by simp
qed

section \<open>The derived frequency\<close>

text \<open>
  Claim C1. When the effect's body runs with preset \<open>p\<close> selected, the frequency it hands
  to the oscillator (and rounds into \<open>frequency\<close>) is
  \<open>baseFreq p + (maxFreq p - baseFreq p) * throttle\<close>, and that function of the throttle is
  monotonically non-decreasing. Both hold for every throttle value, in particular for those
  between 0 and 1.
\<close>

theorem recompute_frequency:
  assumes "isRunning s" "audioCtxRef s" "oscillatorRef s = Some osc" "gainRef s = Some g"
    and "enginePresets (engineType s) = Some p"
  shows "(\<exists>s'. recompute s = Inr s' \<and>
            oscillatorRef s' =
              Some (osc\<lparr>osc_target :=
                Some (baseFreq p + (maxFreq p - baseFreq p) * throttle s, 5 / 100)\<rparr>) \<and>
            frequency s' = round (baseFreq p + (maxFreq p - baseFreq p) * throttle s)) \<and>
         newFreq p (throttle s) = baseFreq p + (maxFreq p - baseFreq p) * throttle s \<and>
         (\<forall>t u. t \<le> u \<longrightarrow> newFreq p t \<le> newFreq p u)"
proof -
  from preset_order [OF assms(5)] have "0 \<le> maxFreq p - baseFreq p"
    by simp
  then have m: "\<forall>t u. t \<le> u \<longrightarrow> newFreq p t \<le> newFreq p u"
    by (simp add: newFreq_def mult_left_mono)
  from recompute_fires [OF assms] m show ?thesis
    by (simp add: newFreq_def)
qed

theorem recompute_frequency_witness:
  "isRunning ferrari_half \<and> audioCtxRef ferrari_half \<and> gainRef ferrari_half \<noteq> None \<and>
   (\<exists>s'. recompute ferrari_half = Inr s' \<and>
      map_option osc_target (oscillatorRef s') = Some (Some (2040, 5 / 100)) \<and>
      frequency s' = 2040) \<and>
   newFreq \<lparr>baseFreq = 80, maxFreq = 4000, wave = Square, gain = 5 / 100\<rparr> (1 / 4) \<le>
     newFreq \<lparr>baseFreq = 80, maxFreq = 4000, wave = Square, gain = 5 / 100\<rparr> (1 / 2)"
proof -
  let ?p = "\<lparr>baseFreq = 80, maxFreq = 4000, wave = Square, gain = 5 / 100\<rparr>"
  have 1: "isRunning ferrari_half" and 2: "audioCtxRef ferrari_half"
    and 3: "oscillatorRef ferrari_half = Some \<lparr>osc_type = Sawtooth, osc_frequency = 40,
              osc_target = Some (40, 5 / 100), osc_connected = True, osc_started = True\<rparr>"
    and 4: "gainRef ferrari_half = Some \<lparr>gain_value = 5 / 100, gain_connected = True\<rparr>"
    and 5: "enginePresets (engineType ferrari_half) = Some ?p"
    and 6: "throttle ferrari_half = 1 / 2"
    by (simp_all add: ferrari_half_def started_def ferrari_preset)
  note t = recompute_frequency [OF 1 2 3 4 5]
  from t 6 have a: "\<exists>s'. recompute ferrari_half = Inr s' \<and>
      map_option osc_target (oscillatorRef s') = Some (Some (2040, 5 / 100)) \<and>
      frequency s' = 2040"
    by auto
  from t have "(1 / 4 :: real) \<le> 1 / 2 \<longrightarrow> newFreq ?p (1 / 4) \<le> newFreq ?p (1 / 2)"
    by blast
  then have b: "newFreq ?p (1 / 4) \<le> newFreq ?p (1 / 2)"
    by simp
  from 1 2 4 a b show ?thesis
    by simp
qed

text \<open>
  Claim C9. The three scenarios, for any running state with its audio objects: Porsche at
  throttle 0 gives frequency 40, rpm 40 and speed 0; Porsche at throttle 1 gives 2000, 2000
  and 20; Ferrari at throttle 1/2 gives 2040, 2040 and 20. The frequency is both the target
  handed to the oscillator and the value stored in \<open>frequency\<close>.
\<close>

theorem preset_scenarios:
  assumes "isRunning s" "audioCtxRef s" "oscillatorRef s = Some osc" "gainRef s = Some g"
  shows "(engineType s = ''porsche'' \<and> throttle s = 0 \<longrightarrow>
            recompute s =
              Inr (s\<lparr>oscillatorRef := Some (osc\<lparr>osc_target := Some (40, 5 / 100)\<rparr>),
                     frequency := 40,
                     data := slice_last 19 (data s) @ [\<lparr>index = tick s, rpm = 40, speed = 0\<rparr>],
                     tick := tick s + 1\<rparr>)) \<and>
         (engineType s = ''porsche'' \<and> throttle s = 1 \<longrightarrow>
            recompute s =
              Inr (s\<lparr>oscillatorRef := Some (osc\<lparr>osc_target := Some (2000, 5 / 100)\<rparr>),
                     frequency := 2000,
                     data := slice_last 19 (data s) @ [\<lparr>index = tick s, rpm = 2000, speed = 20\<rparr>],
                     tick := tick s + 1\<rparr>)) \<and>
         (engineType s = ''ferrari'' \<and> throttle s = 1 / 2 \<longrightarrow>
            recompute s =
              Inr (s\<lparr>oscillatorRef := Some (osc\<lparr>osc_target := Some (2040, 5 / 100)\<rparr>),
                     frequency := 2040,
                     data := slice_last 19 (data s) @ [\<lparr>index = tick s, rpm = 2040, speed = 20\<rparr>],
                     tick := tick s + 1\<rparr>))"
proof -
  have a: "recompute s =
              Inr (s\<lparr>oscillatorRef := Some (osc\<lparr>osc_target := Some (40, 5 / 100)\<rparr>),
                     frequency := 40,
                     data := slice_last 19 (data s) @ [\<lparr>index = tick s, rpm = 40, speed = 0\<rparr>],
                     tick := tick s + 1\<rparr>)"
    if "engineType s = ''porsche'' \<and> throttle s = 0"
  proof -
    from that have "enginePresets (engineType s) =
        Some \<lparr>baseFreq = 40, maxFreq = 2000, wave = Sawtooth, gain = 5 / 100\<rparr>"
      by (simp add: porsche_preset)
    from recompute_fires [OF assms this] that show ?thesis
      by (simp add: newFreq_def appended_def round_def)
  qed
  have b: "recompute s =
              Inr (s\<lparr>oscillatorRef := Some (osc\<lparr>osc_target := Some (2000, 5 / 100)\<rparr>),
                     frequency := 2000,
                     data := slice_last 19 (data s) @ [\<lparr>index = tick s, rpm = 2000, speed = 20\<rparr>],
                     tick := tick s + 1\<rparr>)"
    if "engineType s = ''porsche'' \<and> throttle s = 1"
  proof -
    from that have "enginePresets (engineType s) =
        Some \<lparr>baseFreq = 40, maxFreq = 2000, wave = Sawtooth, gain = 5 / 100\<rparr>"
      by (simp add: porsche_preset)
    from recompute_fires [OF assms this] that show ?thesis
      by (simp add: newFreq_def appended_def round_def)
  qed
  have c: "recompute s =
              Inr (s\<lparr>oscillatorRef := Some (osc\<lparr>osc_target := Some (2040, 5 / 100)\<rparr>),
                     frequency := 2040,
                     data := slice_last 19 (data s) @ [\<lparr>index = tick s, rpm = 2040, speed = 20\<rparr>],
                     tick := tick s + 1\<rparr>)"
    if "engineType s = ''ferrari'' \<and> throttle s = 1 / 2"
  proof -
    from that have "enginePresets (engineType s) =
        Some \<lparr>baseFreq = 80, maxFreq = 4000, wave = Square, gain = 5 / 100\<rparr>"
      by (simp add: ferrari_preset)
    from recompute_fires [OF assms this] that show ?thesis
      by (simp add: newFreq_def appended_def round_def)
  qed
  from a b c show ?thesis by blast
qed

theorem preset_scenarios_witness:
  "isRunning started \<and> audioCtxRef started \<and> engineType started = ''porsche'' \<and>
   throttle started = 0 \<and>
   frequency (projr (recompute started)) = 40 \<and>
   last (data (projr (recompute started))) = \<lparr>index = 1, rpm = 40, speed = 0\<rparr> \<and>
   isRunning porsche_full \<and> audioCtxRef porsche_full \<and> engineType porsche_full = ''porsche'' \<and>
   throttle porsche_full = 1 \<and>
   frequency (projr (recompute porsche_full)) = 2000 \<and>
   last (data (projr (recompute porsche_full))) = \<lparr>index = 1, rpm = 2000, speed = 20\<rparr> \<and>
   isRunning ferrari_half \<and> audioCtxRef ferrari_half \<and> engineType ferrari_half = ''ferrari'' \<and>
   throttle ferrari_half = 1 / 2 \<and>
   frequency (projr (recompute ferrari_half)) = 2040 \<and>
   last (data (projr (recompute ferrari_half))) = \<lparr>index = 1, rpm = 2040, speed = 20\<rparr>"
proof -
  from preset_scenarios [OF started_facts(1) started_refs(1,2,3)] started_refs(4,5)
  have 1: "frequency (projr (recompute started)) = 40 \<and>
           last (data (projr (recompute started))) = \<lparr>index = 1, rpm = 40, speed = 0\<rparr>"
    by (simp add: started_def)
  from preset_scenarios [OF porsche_full_facts(1,2,3,4)] porsche_full_facts(5,6)
  have 2: "frequency (projr (recompute porsche_full)) = 2000 \<and>
           last (data (projr (recompute porsche_full))) = \<lparr>index = 1, rpm = 2000, speed = 20\<rparr>"
    by (simp add: porsche_full_def started_def)
  from preset_scenarios [OF ferrari_half_facts(1,2,4,5)] ferrari_half_engine ferrari_half_facts(7)
  have 3: "frequency (projr (recompute ferrari_half)) = 2040 \<and>
           last (data (projr (recompute ferrari_half))) = \<lparr>index = 1, rpm = 2040, speed = 20\<rparr>"
    by (simp add: ferrari_half_def started_def)
  from 1 2 3 started_facts(1) started_refs(1,4,5) porsche_full_facts(1,2,5,6)
    ferrari_half_facts(1,2,7) ferrari_half_engine
  show ?thesis by blast
qed

section \<open>Starting\<close>

text \<open>
  Claim C5. Pressing Start twice gives the same result as pressing it once, from every
  state; in a running state Start changes nothing; and from a state whose selection names
  a preset, Start succeeds and leads to a running state on which Start changes nothing.
  (The construction of the audio context is taken to succeed.)
\<close>

theorem start_idempotent:
  "run [Start, Start] s = run [Start] s \<and>
   (isRunning s \<longrightarrow> dispatch Start s = Inr s) \<and>
   (preset_ok s \<longrightarrow> (\<exists>s'. dispatch Start s = Inr s' \<and> isRunning s' \<and> dispatch Start s' = Inr s'))"
proof -
  have a: "run [Start, Start] s = run [Start] s"
  proof (cases "dispatch Start s")
    case (Inl e)
    then show ?thesis by simp
  next
    case (Inr s1)
    from dispatch_Start_running [OF Inr] have "dispatch Start s1 = Inr s1"
      by (rule dispatch_Start_noop)
    with Inr show ?thesis by simp
  qed
  have b: "\<exists>s'. dispatch Start s = Inr s' \<and> isRunning s' \<and> dispatch Start s' = Inr s'"
    if "preset_ok s"
  proof -
    from dispatch_Start_total [OF that] obtain s' where d: "dispatch Start s = Inr s'"
      by blast
    from dispatch_Start_running [OF d] have "isRunning s'" .
    with d show ?thesis
      using dispatch_Start_noop by blast
  qed
  from a b show ?thesis
    using dispatch_Start_noop by blast
qed

theorem start_idempotent_witness:
  "run [Start, Start] initial = Inr started \<and> run [Start] initial = Inr started \<and>
   isRunning started \<and> dispatch Start started = Inr started \<and> preset_ok initial \<and>
   dispatch Start initial = Inr started"
proof -
  from start_idempotent [of started] started_facts(1)
  have 1: "dispatch Start started = Inr started"
    by blast
  from start_idempotent [of initial] start_initial
  have 2: "run [Start, Start] initial = Inr started"
    by simp
  from 1 2 start_initial started_facts(1) initial_facts(2) show ?thesis
    by simp
qed

section \<open>Throttle updates\<close>



section \<open>Selecting a preset\<close>

text \<open>
  Claim C6 as stated fails: the handler has no check. An identifier outside
  \<open>enginePresets\<close> is stored without an error and replaces the prior selection; in a
  running state the recomputation that follows throws a \<open>TypeError\<close>.
\<close>

theorem unknown_engine_accepted:
  "enginePresets ''tesla'' = None \<and>
   dispatch (SelectEngine ''tesla'') initial = Inr (initial\<lparr>engineType := ''tesla''\<rparr>) \<and>
   engineType (initial\<lparr>engineType := ''tesla''\<rparr>) \<noteq> engineType initial \<and>
   dispatch (SelectEngine ''tesla'') started = Inl TypeError"
  by (simp add: dispatch_def setEngineType_def recompute_def initial_def started_def
      enginePresets_def deps_def)

text \<open>
  Claim C6, amended. Selecting a preset performs no validation: the handler stores any
  identifier and never reports an error, so while idle the selection is simply replaced.
  Whenever the event succeeds the selection is the identifier given, never another
  preset. For an identifier of \<open>enginePresets\<close>, the only ones the radio buttons offer, it
  always succeeds.
\<close>

theorem select_engine_unchecked:
  "handle (SelectEngine name) s = Inr (s\<lparr>engineType := name\<rparr>) \<and>
   (\<not> isRunning s \<longrightarrow> dispatch (SelectEngine name) s = Inr (s\<lparr>engineType := name\<rparr>)) \<and>
   (dispatch (SelectEngine name) s = Inr s' \<longrightarrow> engineType s' = name) \<and>
   (enginePresets name \<noteq> None \<and> refs_ok s \<longrightarrow>
      (\<exists>s2. dispatch (SelectEngine name) s = Inr s2 \<and> engineType s2 = name))"
proof -
  have a: "handle (SelectEngine name) s = Inr (s\<lparr>engineType := name\<rparr>)"
    by (simp add: setEngineType_def)
  have b: "dispatch (SelectEngine name) s = Inr (s\<lparr>engineType := name\<rparr>)" if "\<not> isRunning s"
    using that by (simp add: dispatch_def setEngineType_def recompute_def)
  have c: "engineType s' = name" if d: "dispatch (SelectEngine name) s = Inr s'"
  proof (cases "deps (s\<lparr>engineType := name\<rparr>) = deps s")
    case True
    with d a show ?thesis by (auto simp: dispatch_def)
  next
    case False
    with d a have "recompute (s\<lparr>engineType := name\<rparr>) = Inr s'"
      by (simp add: dispatch_def)
    from recompute_frame [OF this] show ?thesis by simp
  qed
  have e: "\<exists>s2. dispatch (SelectEngine name) s = Inr s2 \<and> engineType s2 = name"
    if "enginePresets name \<noteq> None" "refs_ok s"
  proof -
    let ?s1 = "s\<lparr>engineType := name\<rparr>"
    from that have "preset_ok ?s1" "refs_ok ?s1"
      by (simp_all add: preset_ok_def refs_ok_def)
    from recompute_total [OF this] obtain s2 where r: "recompute ?s1 = Inr s2"
      by blast
    from recompute_frame [OF r] have "engineType s2 = name"
      by simp
    with r show ?thesis
      by (simp add: dispatch_def setEngineType_def)
  qed
  from a b c e show ?thesis by blast
qed

theorem select_engine_unchecked_witness:
  "\<not> isRunning initial \<and>
   dispatch (SelectEngine ''tesla'') initial = Inr (initial\<lparr>engineType := ''tesla''\<rparr>) \<and>
   enginePresets ''ferrari'' \<noteq> None \<and> refs_ok started \<and>
   (\<exists>s2. dispatch (SelectEngine ''ferrari'') started = Inr s2 \<and> engineType s2 = ''ferrari'')"
proof -
  from select_engine_unchecked [of "''tesla''" initial] initial_facts(1)
  have 1: "dispatch (SelectEngine ''tesla'') initial = Inr (initial\<lparr>engineType := ''tesla''\<rparr>)"
    by blast
  have 2: "enginePresets ''ferrari'' \<noteq> None"
    by (simp add: ferrari_preset)
  from select_engine_unchecked [of "''ferrari''" started] 2 started_facts(3)
  have 3: "\<exists>s2. dispatch (SelectEngine ''ferrari'') started = Inr s2 \<and> engineType s2 = ''ferrari''"
    by blast
  from 1 2 3 initial_facts(1) started_facts(3) show ?thesis
    by blast
qed

section \<open>The parameters sent to the audio backend\<close>

text \<open>
  Claim C8 as stated fails: a recomputation does not touch the waveform or the gain.
  After Start with the Porsche preset and a switch to Mustang, the oscillator is still a
  sawtooth with gain 0.05, where the Mustang preset has a triangle and 0.07; only the
  target frequency follows the new preset.
\<close>

theorem preset_switch_keeps_wave_and_gain:
  "run [Start, SelectEngine ''mustang''] initial =
     Inr \<lparr>audioCtxRef = True,
          oscillatorRef =
            Some \<lparr>osc_type = Sawtooth, osc_frequency = 40, osc_target = Some (50, 5 / 100),
                  osc_connected = True, osc_started = True\<rparr>,
          gainRef = Some \<lparr>gain_value = 5 / 100, gain_connected = True\<rparr>,
          isRunning = True, frequency = 50, throttle = 0,
          data = [\<lparr>index = 0, rpm = 40, speed = 0\<rparr>, \<lparr>index = 1, rpm = 50, speed = 1\<rparr>],
          tick = 2, engineType = ''mustang''\<rparr> \<and>
   enginePresets ''mustang'' =
     Some \<lparr>baseFreq = 50, maxFreq = 2500, wave = Triangle, gain = 7 / 100\<rparr> \<and>
   Sawtooth \<noteq> Triangle \<and> (5 / 100 :: real) \<noteq> 7 / 100"
  by (simp add: start_initial mustang_preset)
    (simp add: dispatch_def setEngineType_def recompute_def started_def mustang_preset deps_def
      newFreq_def slice_last_def Let_def round_def)

text \<open>
  Claim C8, amended. Start issues the waveform, the base frequency and the gain of the
  selected preset. Every recomputation updates the target frequency (time constant 0.05)
  and leaves the waveform and the gain alone, so in a running component they keep the
  values of the preset that was selected at Start, whatever events follow.
\<close>

theorem audio_parameters_issued:
  "(\<not> isRunning s0 \<and> enginePresets (engineType s0) = Some p0 \<longrightarrow>
      startAudio s0 =
        Inr (s0\<lparr>audioCtxRef := True,
                oscillatorRef :=
                  Some \<lparr>osc_type = wave p0, osc_frequency = baseFreq p0, osc_target = None,
                        osc_connected = True, osc_started = True\<rparr>,
                gainRef := Some \<lparr>gain_value = gain p0, gain_connected = True\<rparr>,
                isRunning := True\<rparr>)) \<and>
   (guard s \<and> audioCtxRef s \<and> enginePresets (engineType s) = Some p \<longrightarrow>
      (\<exists>s'. recompute s = Inr s' \<and>
         map_option osc_target (oscillatorRef s') = Some (Some (newFreq p (throttle s), 5 / 100)) \<and>
         map_option osc_type (oscillatorRef s') = map_option osc_type (oscillatorRef s) \<and>
         gainRef s' = gainRef s)) \<and>
   (isRunning s \<and> run evs s = Inr s1 \<longrightarrow>
      map_option osc_type (oscillatorRef s1) = map_option osc_type (oscillatorRef s) \<and>
      gainRef s1 = gainRef s)"
proof -
  have a: "startAudio s0 =
        Inr (s0\<lparr>audioCtxRef := True,
                oscillatorRef :=
                  Some \<lparr>osc_type = wave p0, osc_frequency = baseFreq p0, osc_target = None,
                        osc_connected = True, osc_started = True\<rparr>,
                gainRef := Some \<lparr>gain_value = gain p0, gain_connected = True\<rparr>,
                isRunning := True\<rparr>)"
    if "\<not> isRunning s0 \<and> enginePresets (engineType s0) = Some p0"
    using that by (simp add: startAudio_result)
  have b: "\<exists>s'. recompute s = Inr s' \<and>
         map_option osc_target (oscillatorRef s') = Some (Some (newFreq p (throttle s), 5 / 100)) \<and>
         map_option osc_type (oscillatorRef s') = map_option osc_type (oscillatorRef s) \<and>
         gainRef s' = gainRef s"
    if "guard s \<and> audioCtxRef s \<and> enginePresets (engineType s) = Some p"
  proof -
    from that obtain osc g where "isRunning s" "audioCtxRef s" "oscillatorRef s = Some osc"
      "gainRef s = Some g" "enginePresets (engineType s) = Some p"
      by (auto simp: guard_def)
    from recompute_fires [OF this] this(3) show ?thesis
      by simp
  qed
  have c: "map_option osc_type (oscillatorRef s1) = map_option osc_type (oscillatorRef s) \<and>
      gainRef s1 = gainRef s"
    if "isRunning s \<and> run evs s = Inr s1"
    using that running_audio_fixed by blast
  from a b c show ?thesis by blast
qed

theorem audio_parameters_issued_witness:
  "\<not> isRunning initial \<and>
   enginePresets (engineType initial) =
     Some \<lparr>baseFreq = 40, maxFreq = 2000, wave = Sawtooth, gain = 5 / 100\<rparr> \<and>
   startAudio initial =
     Inr (initial\<lparr>audioCtxRef := True,
            oscillatorRef :=
              Some \<lparr>osc_type = Sawtooth, osc_frequency = 40, osc_target = None,
                    osc_connected = True, osc_started = True\<rparr>,
            gainRef := Some \<lparr>gain_value = 5 / 100, gain_connected = True\<rparr>,
            isRunning := True\<rparr>) \<and>
   guard ferrari_half \<and> audioCtxRef ferrari_half \<and>
   (\<exists>s'. recompute ferrari_half = Inr s' \<and>
      map_option osc_target (oscillatorRef s') = Some (Some (2040, 5 / 100)) \<and>
      map_option osc_type (oscillatorRef s') = Some Sawtooth) \<and>
   isRunning ferrari_half \<and>
   run [SelectEngine ''mustang''] ferrari_half =
     Inr (projr (run [SelectEngine ''mustang''] ferrari_half)) \<and>
   map_option osc_type (oscillatorRef (projr (run [SelectEngine ''mustang''] ferrari_half))) =
     Some Sawtooth \<and>
   map_option gain_value (gainRef (projr (run [SelectEngine ''mustang''] ferrari_half))) =
     Some (5 / 100)"
proof -
  let ?P = "\<lparr>baseFreq = 40, maxFreq = 2000, wave = Sawtooth, gain = 5 / 100\<rparr>"
  let ?F = "\<lparr>baseFreq = 80, maxFreq = 4000, wave = Square, gain = 5 / 100\<rparr>"
  let ?s1 = "projr (run [SelectEngine ''mustang''] ferrari_half)"
  note t = audio_parameters_issued [of initial ?P ferrari_half ?F "[SelectEngine ''mustang'']" ?s1]
  have p: "enginePresets (engineType initial) = Some ?P"
    by (simp add: initial_def porsche_preset)
  from t initial_facts(1) p
  have 1: "startAudio initial =
     Inr (initial\<lparr>audioCtxRef := True,
            oscillatorRef :=
              Some \<lparr>osc_type = Sawtooth, osc_frequency = 40, osc_target = None,
                    osc_connected = True, osc_started = True\<rparr>,
            gainRef := Some \<lparr>gain_value = 5 / 100, gain_connected = True\<rparr>,
            isRunning := True\<rparr>)"
    by simp
  from t ferrari_half_facts(2,3,6)
  have "\<exists>s'. recompute ferrari_half = Inr s' \<and>
         map_option osc_target (oscillatorRef s') =
           Some (Some (newFreq ?F (throttle ferrari_half), 5 / 100)) \<and>
         map_option osc_type (oscillatorRef s') = map_option osc_type (oscillatorRef ferrari_half) \<and>
         gainRef s' = gainRef ferrari_half"
    by blast
  then have 2: "\<exists>s'. recompute ferrari_half = Inr s' \<and>
      map_option osc_target (oscillatorRef s') = Some (Some (2040, 5 / 100)) \<and>
      map_option osc_type (oscillatorRef s') = Some Sawtooth"
    by (auto simp: ferrari_half_facts(4,7) newFreq_def)
  from t ferrari_half_facts(1) mustang_switch
  have "map_option osc_type (oscillatorRef ?s1) = map_option osc_type (oscillatorRef ferrari_half) \<and>
      gainRef ?s1 = gainRef ferrari_half"
    by blast
  then have 3: "map_option osc_type (oscillatorRef ?s1) = Some Sawtooth \<and>
      map_option gain_value (gainRef ?s1) = Some (5 / 100)"
    by (simp add: ferrari_half_facts(4,5))
  from 1 2 3 initial_facts(1) p ferrari_half_facts(1,2,3) mustang_switch show ?thesis
    by blast
qed

end
